theory Spec2Isabelle
  imports Main "HOL-Library.Sublist"
begin

section \<open>JavaScript strings and numbers\<close>

text \<open>
  The advocate page (\<^verbatim>\<open>src/app/page.tsx\<close> and its two later revisions
  \<^verbatim>\<open>unnamed/part_000\<close>, \<^verbatim>\<open>unnamed/part_001\<close>) uses four built-ins on strings
  and numbers: \<^verbatim>\<open>String.prototype.toLowerCase\<close>, \<^verbatim>\<open>String.prototype.includes\<close>,
  \<^verbatim>\<open>Array.prototype.includes\<close>/\<^verbatim>\<open>some\<close> and \<^verbatim>\<open>Number.prototype.toString\<close>.

  A string is a list of code units; \<^typ>\<open>char\<close> holds the code units 0..255, read as
  Latin-1 (U+0000..U+00FF). On these code units \<^verbatim>\<open>toLowerCase\<close> maps \<open>A..Z\<close> and
  U+00C0..U+00DE (without the multiplication sign U+00D7) to the code unit 32 above and
  leaves everything else alone. Code units above U+00FF are outside the embedding.
\<close>

definition toLowerCase_char :: "char \<Rightarrow> char" where
  "toLowerCase_char c =
     (let n = (of_char c :: nat)
      in if (65 \<le> n \<and> n \<le> 90) \<or> (192 \<le> n \<and> n \<le> 222 \<and> n \<noteq> 215)
         then char_of (n + 32) else c)"

definition toLowerCase :: "string \<Rightarrow> string" where
  "toLowerCase s = map toLowerCase_char s"

text \<open>
  \<^verbatim>\<open>toUpperCase\<close> on the letters \<open>a..z\<close> and U+00E0..U+00FE (without the division sign
  U+00F7). JavaScript sends U+00DF, U+00B5 and U+00FF out of Latin-1; they are left alone
  here and no statement below uses \<^verbatim>\<open>toUpperCase\<close> on them.
\<close>

definition toUpperCase_char :: "char \<Rightarrow> char" where
  "toUpperCase_char c =
     (let n = (of_char c :: nat)
      in if (97 \<le> n \<and> n \<le> 122) \<or> (224 \<le> n \<and> n \<le> 254 \<and> n \<noteq> 247)
         then char_of (n - 32) else c)"

definition toUpperCase :: "string \<Rightarrow> string" where
  "toUpperCase s = map toUpperCase_char s"

text \<open>\<^verbatim>\<open>s.includes(t)\<close>: does \<open>t\<close> occur in \<open>s\<close> as a contiguous run of code units.\<close>

primrec str_includes :: "string \<Rightarrow> string \<Rightarrow> bool" where
  "str_includes [] t = (t = [])"
| "str_includes (c # cs) t = (prefix t (c # cs) \<or> str_includes cs t)"

text \<open>
  \<^verbatim>\<open>n.toString()\<close> for an integer \<open>n\<close>: the decimal digits, most significant first, after a
  minus sign when \<open>n\<close> is negative. The page declares the years of experience as
  \<^verbatim>\<open>number\<close>; the embedding covers the integers among them, of magnitude below \<open>10^21\<close>,
  which JavaScript prints this way.
\<close>

definition digit_char :: "nat \<Rightarrow> char" where
  "digit_char d = char_of (48 + d)"

fun toString_nat :: "nat \<Rightarrow> string" where
  "toString_nat n =
     (if n < 10 then [digit_char n] else toString_nat (n div 10) @ [digit_char (n mod 10)])"

declare toString_nat.simps [simp del]

definition toString :: "int \<Rightarrow> string" where
  "toString i = (if i < 0 then CHR ''-'' # toString_nat (nat (- i)) else toString_nat (nat i))"

section \<open>The data model\<close>

text \<open>
  \<^verbatim>\<open>type Advocate\<close> (lines 9-19 of every revision). The optional \<^verbatim>\<open>id\<close> and
  \<^verbatim>\<open>createdAt\<close> are options; a \<^verbatim>\<open>Date\<close> is its number of milliseconds.
\<close>

record advocate =
  id_opt :: "int option"
  firstName :: string
  lastName :: string
  city :: string
  degree :: string
  specialties :: "string list"
  yearsOfExperience :: int
  phoneNumber :: int
  createdAt :: "int option"

text \<open>The exceptions and promise rejections that occur in the component.\<close>

datatype error = TypeError | SyntaxError | NetworkError

text \<open>What the component writes to the console.\<close>

datatype console_entry =
    Log string
  | LogAdvocates "advocate list"
  | LogError string error

text \<open>
  The state both revisions of \<^verbatim>\<open>Home\<close> keep: the two \<^verbatim>\<open>useState\<close> lists (lines 44-45)
  and the console. Both lists start empty.
\<close>

record view_state =
  advocates :: "advocate list"
  filteredAdvocates :: "advocate list"
  console :: "console_entry list"

text \<open>
  How a handler or an effect ends: it finishes and the component renders the new state
  (\<open>Done\<close>); an exception or a rejected promise leaves it while the component stays mounted
  with the state reached so far (\<open>Uncaught\<close>); or the render that follows raises and React
  unmounts the page (\<open>RenderCrash\<close>).
\<close>

datatype 'st outcome = Done 'st | Uncaught error 'st | RenderCrash error

text \<open>
  What the request of the effect can come to. \<^verbatim>\<open>fetch\<close> rejects; or \<^verbatim>\<open>response.json()\<close>
  rejects because the body is not JSON; or it resolves, to \<^verbatim>\<open>null\<close> or to a value whose
  \<^verbatim>\<open>data\<close> property is an array of advocates or anything else (absent, \<^verbatim>\<open>undefined\<close>, not
  an array).
\<close>

datatype data_field = Records "advocate list" | NotAnArray

datatype json = JsonNull | JsonValue data_field

datatype fetch_result = FetchRejects | JsonRejects | JsonResolves json

text \<open>
  \<^verbatim>\<open>Array.prototype.filter\<close> with a callback that may raise: the elements are visited in
  order and the first exception leaves the loop.
\<close>

fun filterE :: "('a \<Rightarrow> error + bool) \<Rightarrow> 'a list \<Rightarrow> error + 'a list" where
  "filterE p [] = Inr []"
| "filterE p (x # xs) =
     (case p x of
        Inl e \<Rightarrow> Inl e
      | Inr b \<Rightarrow>
          (case filterE p xs of
             Inl e \<Rightarrow> Inl e
           | Inr ys \<Rightarrow> Inr (if b then x # ys else ys)))"

section \<open>The original page (\<^verbatim>\<open>src/app/page.tsx\<close>)\<close>

text \<open>
  Besides the two lists the original page keeps the search term in the DOM: \<^verbatim>\<open>onChange\<close>
  assigns it to the \<^verbatim>\<open>innerHTML\<close> of the span \<^verbatim>\<open>search-term\<close> (line 60).
\<close>

record home_state_orig = view_state +
  search_term_innerHTML :: string

definition home_init_orig :: home_state_orig where
  "home_init_orig =
     \<lparr>advocates = [], filteredAdvocates = [], console = [], search_term_innerHTML = []\<rparr>"

text \<open>
  The callback of \<^verbatim>\<open>advocates.filter\<close> (page.tsx lines 63-72). The strings are compared
  as they are; \<^verbatim>\<open>advocate.specialties.includes(searchTerm)\<close> is \<^verbatim>\<open>Array.prototype.includes\<close>,
  which looks for an element equal to the term; and the last operand,
  \<^verbatim>\<open>advocate.yearsOfExperience.includes(searchTerm)\<close>, calls a method a number does not
  have, which is a \<^verbatim>\<open>TypeError\<close>. \<^verbatim>\<open>||\<close> evaluates it only when every operand before it
  is false.
\<close>

definition matches_orig :: "string \<Rightarrow> advocate \<Rightarrow> error + bool" where
  "matches_orig searchTerm a =
     (if str_includes (firstName a) searchTerm then Inr True
      else if str_includes (lastName a) searchTerm then Inr True
      else if str_includes (city a) searchTerm then Inr True
      else if str_includes (degree a) searchTerm then Inr True
      else if searchTerm \<in> set (specialties a) then Inr True
      else Inl TypeError)"

text \<open>\<^verbatim>\<open>onChange\<close> (page.tsx lines 57-75).\<close>

definition onChange_orig :: "string \<Rightarrow> home_state_orig \<Rightarrow> home_state_orig outcome" where
  "onChange_orig searchTerm s =
     (let s1 = s\<lparr>search_term_innerHTML := searchTerm,
                 console := console s @ [Log ''filtering advocates...'']\<rparr>
      in case filterE (matches_orig searchTerm) (advocates s) of
           Inl e \<Rightarrow> Uncaught e s1
         | Inr filtered \<Rightarrow> Done (s1\<lparr>filteredAdvocates := filtered\<rparr>))"

text \<open>\<^verbatim>\<open>onClick\<close> (page.tsx lines 77-80).\<close>

definition onClick_orig :: "home_state_orig \<Rightarrow> home_state_orig" where
  "onClick_orig s =
     s\<lparr>console := console s @ [LogAdvocates (advocates s)],
       filteredAdvocates := advocates s\<rparr>"

text \<open>
  The effect (page.tsx lines 47-55) together with the render that follows it. The promise
  chain has no rejection handler. The table body is \<^verbatim>\<open>filteredAdvocates.map(...)\<close>
  (line 110), a \<^verbatim>\<open>TypeError\<close> when the stored value is not an array.
\<close>

definition useEffect_orig :: "fetch_result \<Rightarrow> home_state_orig \<Rightarrow> home_state_orig outcome" where
  "useEffect_orig r s =
     (let s1 = s\<lparr>console := console s @ [Log ''fetching advocates...'']\<rparr>
      in case r of
           FetchRejects \<Rightarrow> Uncaught NetworkError s1
         | JsonRejects \<Rightarrow> Uncaught SyntaxError s1
         | JsonResolves JsonNull \<Rightarrow> Uncaught TypeError s1
         | JsonResolves (JsonValue (Records d)) \<Rightarrow>
             Done (s1\<lparr>advocates := d, filteredAdvocates := d\<rparr>)
         | JsonResolves (JsonValue NotAnArray) \<Rightarrow> RenderCrash TypeError)"

section \<open>The revised page (\<^verbatim>\<open>unnamed/part_000\<close>, \<^verbatim>\<open>unnamed/part_001\<close>)\<close>

text \<open>
  The two later revisions differ in markup only. They add the state \<^verbatim>\<open>searchTerm\<close>
  (line 46), which the input box and the line "Searching for:" display.
\<close>

record home_state = view_state +
  searchTerm :: string

definition home_init :: home_state where
  "home_init = \<lparr>advocates = [], filteredAdvocates = [], console = [], searchTerm = []\<rparr>"

text \<open>
  The callback of \<^verbatim>\<open>advocates.filter\<close> in \<^verbatim>\<open>onChange\<close> (lines 69-82 of both files):
  \<open>v\<close> is \<^verbatim>\<open>value\<close>, the text of the input box. The years are compared with \<^verbatim>\<open>value\<close>
  itself, the text fields with its lower-cased form.
\<close>

definition matches :: "string \<Rightarrow> advocate \<Rightarrow> bool" where
  "matches v a =
     (let lowerSearchTerm = toLowerCase v
      in str_includes (toLowerCase (firstName a)) lowerSearchTerm \<or>
         str_includes (toLowerCase (lastName a)) lowerSearchTerm \<or>
         str_includes (toLowerCase (city a)) lowerSearchTerm \<or>
         str_includes (toLowerCase (degree a)) lowerSearchTerm \<or>
         list_ex (\<lambda>specialty. str_includes (toLowerCase specialty) lowerSearchTerm)
           (specialties a) \<or>
         str_includes (toString (yearsOfExperience a)) v)"

text \<open>\<^verbatim>\<open>onChange\<close> (lines 64-85).\<close>

definition onChange :: "string \<Rightarrow> home_state \<Rightarrow> home_state" where
  "onChange v s =
     s\<lparr>searchTerm := v,
       console := console s @ [Log ''filtering advocates...''],
       filteredAdvocates := filter (matches v) (advocates s)\<rparr>"

text \<open>\<^verbatim>\<open>onClick\<close> (lines 87-91).\<close>

definition onClick :: "home_state \<Rightarrow> home_state" where
  "onClick s =
     s\<lparr>console := console s @ [LogAdvocates (advocates s)],
       searchTerm := [],
       filteredAdvocates := advocates s\<rparr>"

text \<open>
  \<^verbatim>\<open>fetchAdvocates\<close> (lines 49-59) together with the render that follows it. Everything
  raised or rejected inside \<^verbatim>\<open>try\<close> reaches \<^verbatim>\<open>catch\<close>, which logs it: the rejection of
  \<^verbatim>\<open>fetch\<close>, the rejection of \<^verbatim>\<open>response.json()\<close>, and the \<^verbatim>\<open>TypeError\<close> of reading
  \<^verbatim>\<open>data\<close> from \<^verbatim>\<open>null\<close>. Any other value is stored as it is, and the table body
  \<^verbatim>\<open>filteredAdvocates.map(...)\<close> (line 146) raises when it is not an array.
\<close>

definition fetchAdvocates :: "fetch_result \<Rightarrow> home_state \<Rightarrow> home_state outcome" where
  "fetchAdvocates r s =
     (let s1 = s\<lparr>console := console s @ [Log ''fetching advocates...'']\<rparr>;
          failed = (\<lambda>e. Done (s1\<lparr>console := console s1 @
                                   [LogError ''Failed to fetch advocates:'' e]\<rparr>))
      in case r of
           FetchRejects \<Rightarrow> failed NetworkError
         | JsonRejects \<Rightarrow> failed SyntaxError
         | JsonResolves JsonNull \<Rightarrow> failed TypeError
         | JsonResolves (JsonValue (Records d)) \<Rightarrow>
             Done (s1\<lparr>advocates := d, filteredAdvocates := d\<rparr>)
         | JsonResolves (JsonValue NotAnArray) \<Rightarrow> RenderCrash TypeError)"

subsection \<open>Records with missing fields\<close>

text \<open>
  \<^verbatim>\<open>type Advocate\<close> makes every compared field mandatory, but the records come out of
  \<^verbatim>\<open>response.json()\<close> unchecked. A record as it may arrive: each compared field is present
  or missing (\<^verbatim>\<open>undefined\<close>). Calling a method on a missing field is a \<^verbatim>\<open>TypeError\<close>.
\<close>

record raw_advocate =
  raw_firstName :: "string option"
  raw_lastName :: "string option"
  raw_city :: "string option"
  raw_degree :: "string option"
  raw_specialties :: "string list option"
  raw_yearsOfExperience :: "int option"

definition call_on :: "'a option \<Rightarrow> ('a \<Rightarrow> bool) \<Rightarrow> error + bool" where
  "call_on field method = (case field of None \<Rightarrow> Inl TypeError | Some x \<Rightarrow> Inr (method x))"

text \<open>\<^verbatim>\<open>l || r\<close>: the right operand is evaluated only when the left one is false.\<close>

definition js_or :: "error + bool \<Rightarrow> error + bool \<Rightarrow> error + bool" where
  "js_or l r = (case l of Inl e \<Rightarrow> Inl e | Inr b \<Rightarrow> (if b then Inr True else r))"

text \<open>The callback of the revised \<^verbatim>\<open>onChange\<close> (lines 69-82) on such a record.\<close>

definition matches_raw :: "string \<Rightarrow> raw_advocate \<Rightarrow> error + bool" where
  "matches_raw v a =
     (let lowerSearchTerm = toLowerCase v
      in js_or (call_on (raw_firstName a) (\<lambda>x. str_includes (toLowerCase x) lowerSearchTerm))
        (js_or (call_on (raw_lastName a) (\<lambda>x. str_includes (toLowerCase x) lowerSearchTerm))
        (js_or (call_on (raw_city a) (\<lambda>x. str_includes (toLowerCase x) lowerSearchTerm))
        (js_or (call_on (raw_degree a) (\<lambda>x. str_includes (toLowerCase x) lowerSearchTerm))
        (js_or (call_on (raw_specialties a)
                  (list_ex (\<lambda>specialty. str_includes (toLowerCase specialty) lowerSearchTerm)))
               (call_on (raw_yearsOfExperience a) (\<lambda>n. str_includes (toString n) v)))))))"

text \<open>A well-typed advocate as the record that arrives.\<close>

definition raw_of :: "advocate \<Rightarrow> raw_advocate" where
  "raw_of a =
     \<lparr>raw_firstName = Some (firstName a), raw_lastName = Some (lastName a),
      raw_city = Some (city a), raw_degree = Some (degree a),
      raw_specialties = Some (specialties a),
      raw_yearsOfExperience = Some (yearsOfExperience a)\<rparr>"

section \<open>The specification's notions\<close>

text \<open>
  Two code units are the same up to case when they are equal or one is the capital of the
  other. A string contains a term case-insensitively when one of its contiguous runs has
  the term's length and agrees with it position by position up to case.
\<close>

definition is_capital :: "char \<Rightarrow> bool" where
  "is_capital c =
     (let n = (of_char c :: nat)
      in (65 \<le> n \<and> n \<le> 90) \<or> (192 \<le> n \<and> n \<le> 222 \<and> n \<noteq> 215))"

definition same_up_to_case :: "char \<Rightarrow> char \<Rightarrow> bool" where
  "same_up_to_case c d =
     (c = d \<or>
      (is_capital c \<and> (of_char d :: nat) = of_char c + 32) \<or>
      (is_capital d \<and> (of_char c :: nat) = of_char d + 32))"

definition contains_ci :: "string \<Rightarrow> string \<Rightarrow> bool" where
  "contains_ci s t = (\<exists>u. sublist u s \<and> list_all2 same_up_to_case u t)"

text \<open>
  The inclusion rule of the specification: one of first name, last name, city, degree and
  the specialties contains the term case-insensitively, or the decimal form of the years of
  experience contains it.
\<close>

definition spec_matches :: "string \<Rightarrow> advocate \<Rightarrow> bool" where
  "spec_matches t a =
     (contains_ci (firstName a) t \<or> contains_ci (lastName a) t \<or>
      contains_ci (city a) t \<or> contains_ci (degree a) t \<or>
      (\<exists>specialty \<in> set (specialties a). contains_ci specialty t) \<or>
      sublist t (toString (yearsOfExperience a)))"

text \<open>An alphabetic term: every code unit is one of the letters \<open>a..z\<close>, \<open>A..Z\<close>.\<close>

definition alphabetic :: "string \<Rightarrow> bool" where
  "alphabetic t =
     list_all (\<lambda>c. let n = (of_char c :: nat)
                   in (65 \<le> n \<and> n \<le> 90) \<or> (97 \<le> n \<and> n \<le> 122)) t"

text \<open>The invariant of the data model: the display list shows records of the full list only.\<close>

definition display_within_full :: "'a view_state_scheme \<Rightarrow> bool" where
  "display_within_full s = (set (filteredAdvocates s) \<subseteq> set (advocates s))"

section \<open>Sample data\<close>

text \<open>The two records of the specification's end-to-end scenario, with fifteen years for Jane.\<close>

definition jane :: advocate where
  "jane = \<lparr>id_opt = None, firstName = ''Jane'', lastName = ''Doe'', city = ''Austin'',
           degree = ''MD'', specialties = [''Cardiology''], yearsOfExperience = 15,
           phoneNumber = 5551234567, createdAt = None\<rparr>"

definition john :: advocate where
  "john = \<lparr>id_opt = Some 2, firstName = ''John'', lastName = ''Smith'', city = ''Boston'',
           degree = ''PhD'', specialties = [''Neurology''], yearsOfExperience = 5,
           phoneNumber = 5559876543, createdAt = None\<rparr>"

text \<open>Both pages after the request has delivered these two records.\<close>

definition loaded :: home_state where
  "loaded = \<lparr>advocates = [jane, john], filteredAdvocates = [jane, john],
             console = [Log ''fetching advocates...''], searchTerm = []\<rparr>"

definition loaded_orig :: home_state_orig where
  "loaded_orig = \<lparr>advocates = [jane, john], filteredAdvocates = [jane, john],
                  console = [Log ''fetching advocates...''], search_term_innerHTML = []\<rparr>"

text \<open>Jane as she arrives when the payload lacks her first name.\<close>

definition jane_without_firstName :: raw_advocate where
  "jane_without_firstName = (raw_of jane)\<lparr>raw_firstName := None\<rparr>"

section \<open>Facts about strings\<close>

lemma str_includes_iff_sublist: "str_includes s t \<longleftrightarrow> sublist t s"
  by (induction s) (simp_all add: sublist_Cons_right)

lemma of_char_less_256: "(of_char c :: nat) < 256"
  by (cases c) simp

lemma of_char_toLowerCase:
  "(of_char (toLowerCase_char c) :: nat) = (if is_capital c then of_char c + 32 else of_char c)"
  by (simp add: toLowerCase_char_def is_capital_def Let_def)

lemma of_char_toUpperCase:
  "(of_char (toUpperCase_char c) :: nat) =
     (if (97 \<le> (of_char c :: nat) \<and> (of_char c :: nat) \<le> 122) \<or>
         (224 \<le> (of_char c :: nat) \<and> (of_char c :: nat) \<le> 254 \<and> (of_char c :: nat) \<noteq> 247)
      then of_char c - 32 else of_char c)"
proof -
  have "(of_char c :: nat) - 32 < 256"
    using of_char_less_256 [of c] by arith
  then have "((of_char c :: nat) - 32) mod 256 = of_char c - 32"
    by (rule mod_less)
  then show ?thesis
    by (simp add: toUpperCase_char_def Let_def)
qed

lemma char_eq_iff_code: "c = d \<longleftrightarrow> (of_char c :: nat) = of_char d"
  by simp

lemma same_up_to_case_iff:
  "same_up_to_case c d \<longleftrightarrow> toLowerCase_char c = toLowerCase_char d"
  unfolding same_up_to_case_def char_eq_iff_code [of "toLowerCase_char c"] char_eq_iff_code [of c d]
    of_char_toLowerCase
  by (auto simp: is_capital_def Let_def)

lemma toLowerCase_char_idem: "toLowerCase_char (toLowerCase_char c) = toLowerCase_char c"
  unfolding char_eq_iff_code [of "toLowerCase_char (toLowerCase_char c)"] 
  by (auto simp: of_char_toLowerCase is_capital_def Let_def)

lemma toLowerCase_toUpperCase_char: "toLowerCase_char (toUpperCase_char c) = toLowerCase_char c"
  unfolding char_eq_iff_code [of "toLowerCase_char (toUpperCase_char c)"] 
  by (auto simp: of_char_toLowerCase of_char_toUpperCase is_capital_def Let_def)

lemma toLowerCase_idem: "toLowerCase (toLowerCase t) = toLowerCase t"
  by (simp add: toLowerCase_def toLowerCase_char_idem)

lemma toLowerCase_toUpperCase: "toLowerCase (toUpperCase t) = toLowerCase t"
  by (simp add: toLowerCase_def toUpperCase_def toLowerCase_toUpperCase_char)

lemma map_eq_iff_list_all2:
  "map f u = map f t \<longleftrightarrow> list_all2 (\<lambda>a b. f a = f b) u t"
  by (induction u arbitrary: t) (auto simp: list_all2_Cons1)

lemma sublist_map_iff:
  "sublist (map f t) (map f s) \<longleftrightarrow> (\<exists>u. sublist u s \<and> map f u = map f t)"
proof
  assume "sublist (map f t) (map f s)"
  then obtain ps ss where "map f s = ps @ map f t @ ss"
    by (auto simp: sublist_def)
  then obtain s1 r where s: "s = s1 @ r" and r: "map f t @ ss = map f r"
    by (auto simp: map_eq_append_conv)
  from r obtain u s2 where "r = u @ s2" and "map f u = map f t"
    by (auto simp: append_eq_map_conv)
  with s have "sublist u s" by (auto simp: sublist_def)
  with \<open>map f u = map f t\<close> show "\<exists>u. sublist u s \<and> map f u = map f t" by blast
next
  assume "\<exists>u. sublist u s \<and> map f u = map f t"
  then obtain u where "sublist u s" and u: "map f u = map f t" by blast
  then obtain ps ss where "s = ps @ u @ ss" by (auto simp: sublist_def)
  then have "map f s = map f ps @ map f t @ map f ss" using u by simp
  then show "sublist (map f t) (map f s)" unfolding sublist_def by blast
qed

lemma sublist_lower_iff:
  "sublist (toLowerCase t) (toLowerCase s) \<longleftrightarrow> contains_ci s t"
  by (simp add: toLowerCase_def sublist_map_iff contains_ci_def
      map_eq_iff_list_all2 same_up_to_case_iff [abs_def])

lemma matches_iff_spec: "matches t a \<longleftrightarrow> spec_matches t a"
  by (simp add: matches_def spec_matches_def Let_def list_ex_iff
      str_includes_iff_sublist sublist_lower_iff)

text \<open>The decimal form of an integer consists of digits and at most a minus sign.\<close>

lemma of_char_digit_char: "d < 10 \<Longrightarrow> (of_char (digit_char d) :: nat) = 48 + d"
  by (simp add: digit_char_def)

lemma toString_nat_digits:
  "c \<in> set (toString_nat n) \<Longrightarrow> 48 \<le> (of_char c :: nat) \<and> (of_char c :: nat) \<le> 57"
proof (induction n rule: toString_nat.induct)
  case (1 n)
  show ?case
  proof (cases "n < 10")
    case True
    with "1.prems" have "c = digit_char n" by (simp add: toString_nat.simps [of n])
    with True show ?thesis by (simp add: of_char_digit_char)
  next
    case False
    with "1.prems" have "c \<in> set (toString_nat (n div 10)) \<or> c = digit_char (n mod 10)"
      by (auto simp: toString_nat.simps [of n])
    then show ?thesis
    proof
      assume "c \<in> set (toString_nat (n div 10))"
      with False "1.IH" show ?thesis by simp
    next
      assume "c = digit_char (n mod 10)"
      then show ?thesis by (simp add: of_char_digit_char)
    qed
  qed
qed

lemma toString_chars:
  "c \<in> set (toString i) \<Longrightarrow> (of_char c :: nat) = 45 \<or> (48 \<le> (of_char c :: nat) \<and> (of_char c :: nat) \<le> 57)"
  by (auto simp: toString_def dest: toString_nat_digits split: if_splits)

lemma alphabetic_not_in_toString:
  assumes "alphabetic t" and "t \<noteq> []"
  shows "\<not> sublist t (toString i)"
proof
  assume sub: "sublist t (toString i)"
  from \<open>t \<noteq> []\<close> obtain c t' where t: "t = c # t'" by (cases t) auto
  with sub have "c \<in> set (toString i)"
    using set_mono_sublist [OF sub] by auto
  then have "(of_char c :: nat) = 45 \<or> (48 \<le> (of_char c :: nat) \<and> (of_char c :: nat) \<le> 57)"
    by (rule toString_chars)
  moreover from \<open>alphabetic t\<close> t
  have "(65 \<le> (of_char c :: nat) \<and> (of_char c :: nat) \<le> 90) \<or> (97 \<le> (of_char c :: nat) \<and> (of_char c :: nat) \<le> 122)"
    by (simp add: alphabetic_def Let_def)
  ultimately show False by arith
qed

lemma alphabetic_years:
  "alphabetic t \<Longrightarrow> str_includes (toString i) t \<longleftrightarrow> t = []"
  using alphabetic_not_in_toString [of t i]
  by (auto simp: str_includes_iff_sublist)

lemma alphabetic_toUpperCase: "alphabetic t \<Longrightarrow> alphabetic (toUpperCase t)"
  by (induction t) (auto simp: alphabetic_def toUpperCase_def Let_def of_char_toUpperCase)

lemma alphabetic_toLowerCase: "alphabetic t \<Longrightarrow> alphabetic (toLowerCase t)"
  by (induction t) (auto simp: alphabetic_def toLowerCase_def Let_def of_char_toLowerCase is_capital_def)

lemma toUpperCase_Nil_iff: "toUpperCase t = [] \<longleftrightarrow> t = []"
  by (simp add: toUpperCase_def)

lemma toLowerCase_Nil_iff: "toLowerCase t = [] \<longleftrightarrow> t = []"
  by (simp add: toLowerCase_def)

lemma matches_toUpperCase:
  assumes "alphabetic t"
  shows "matches (toUpperCase t) a = matches t a"
proof -
  have "str_includes (toString (yearsOfExperience a)) (toUpperCase t) =
        str_includes (toString (yearsOfExperience a)) t"
    using assms by (simp add: alphabetic_years alphabetic_toUpperCase toUpperCase_Nil_iff)
  then show ?thesis
    by (simp only: matches_def Let_def toLowerCase_toUpperCase)
qed

lemma matches_toLowerCase:
  assumes "alphabetic t"
  shows "matches (toLowerCase t) a = matches t a"
proof -
  have "str_includes (toString (yearsOfExperience a)) (toLowerCase t) =
        str_includes (toString (yearsOfExperience a)) t"
    using assms by (simp add: alphabetic_years alphabetic_toLowerCase toLowerCase_Nil_iff)
  then show ?thesis
    by (simp only: matches_def Let_def toLowerCase_idem)
qed

lemma years_15: "str_includes (toString 15) ''5'' \<and> str_includes (toString 15) ''15''"
  by code_simp

lemma matches_years_15:
  "yearsOfExperience a = 15 \<Longrightarrow> matches ''5'' a \<and> matches ''15'' a"
  using years_15 by (simp add: matches_def Let_def)

lemma filterE_subseq: "filterE p xs = Inr ys \<Longrightarrow> subseq ys xs"
  by (induction xs arbitrary: ys) (auto split: sum.splits if_splits)

lemma matches_orig_not_False: "matches_orig t a \<noteq> Inr False"
  by (simp add: matches_orig_def)

lemma filterE_matches_orig: "filterE (matches_orig t) xs = Inr ys \<Longrightarrow> ys = xs"
  using matches_orig_not_False 
  by (induction xs arbitrary: ys) (auto split: sum.splits if_splits)

lemma matches_raw_raw_of: "matches_raw v (raw_of a) = Inr (matches v a)"
  by (simp add: matches_raw_def raw_of_def matches_def call_on_def js_or_def Let_def)

lemma filterE_total:
  "filterE (\<lambda>x. Inr (p x)) xs = Inr (filter p xs)"
  by (induction xs) simp_all

section \<open>Facts about the filter\<close>

lemma str_includes_Nil: "str_includes s []"
  by (simp add: str_includes_iff_sublist)

lemma matches_Nil: "matches [] a"
  by (simp add: matches_def Let_def str_includes_Nil toLowerCase_def)

lemma matches_orig_Nil: "matches_orig [] a = Inr True"
  by (simp add: matches_orig_def str_includes_Nil)

lemma filterE_all_True: "(\<And>x. p x = Inr True) \<Longrightarrow> filterE p xs = Inr xs"
  by (induction xs) simp_all

lemma filterE_set: "filterE p xs = Inr ys \<Longrightarrow> set ys \<subseteq> set xs"
  by (induction xs arbitrary: ys) (auto split: sum.splits if_splits)

section \<open>What the revised page does\<close>

text \<open>
  The revised \<^verbatim>\<open>onChange\<close> keeps exactly the records the specification's inclusion rule
  names, treats an alphabetic term alike in every case, finds fifteen years under "5" and
  "15", and \<^verbatim>\<open>onClick\<close> restores the fetched list and empties the search term. The
  original \<^verbatim>\<open>onClick\<close> leaves the span as it is.
\<close>

lemma onChange_filtered: "filteredAdvocates (onChange v s) = filter (matches v) (advocates s)"
  by (simp add: onChange_def)

lemma onChange_advocates: "advocates (onChange v s) = advocates s"
  by (simp add: onChange_def)

lemma fold_onChange_advocates: "advocates (fold onChange vs s) = advocates s"
  by (induction vs arbitrary: s) (simp_all add: onChange_advocates)

lemma onChange_spec:
  "filteredAdvocates (onChange t s) = filter (spec_matches t) (advocates s)"
  by (simp add: onChange_filtered matches_iff_spec [abs_def])

lemma onChange_includes_iff:
  "a \<in> set (filteredAdvocates (onChange t s)) \<longleftrightarrow> a \<in> set (advocates s) \<and> spec_matches t a"
  by (simp add: onChange_spec)

lemma onChange_case_insensitive:
  assumes "alphabetic t"
  shows "filteredAdvocates (onChange (toUpperCase t) s) = filteredAdvocates (onChange t s)"
    and "filteredAdvocates (onChange (toLowerCase t) s) = filteredAdvocates (onChange t s)"
proof -
  have "matches (toUpperCase t) = matches t" and "matches (toLowerCase t) = matches t"
    using assms by (auto simp: matches_toUpperCase matches_toLowerCase)
  then show "filteredAdvocates (onChange (toUpperCase t) s) = filteredAdvocates (onChange t s)"
    and "filteredAdvocates (onChange (toLowerCase t) s) = filteredAdvocates (onChange t s)"
    by (simp_all add: onChange_filtered)
qed

lemma onChange_years_15:
  assumes "a \<in> set (advocates s)" and "yearsOfExperience a = 15"
  shows "a \<in> set (filteredAdvocates (onChange ''5'' s))"
    and "a \<in> set (filteredAdvocates (onChange ''15'' s))"
  using assms matches_years_15 [of a] by (simp_all add: onChange_filtered)

lemma reset_after_filtering:
  assumes "fetchAdvocates (JsonResolves (JsonValue (Records d))) s0 = Done s"
  shows "filteredAdvocates (onClick (fold onChange vs s)) = d"
    and "advocates (onClick (fold onChange vs s)) = d"
    and "searchTerm (onClick (fold onChange vs s)) = []"
proof -
  from assms have "advocates s = d"
    by (auto simp: fetchAdvocates_def Let_def)
  then show "filteredAdvocates (onClick (fold onChange vs s)) = d"
    and "advocates (onClick (fold onChange vs s)) = d"
    and "searchTerm (onClick (fold onChange vs s)) = []"
    by (simp_all add: onClick_def fold_onChange_advocates)
qed

lemma onClick_orig_keeps_search_term:
  "search_term_innerHTML (onClick_orig s) = search_term_innerHTML s"
  by (simp add: onClick_orig_def)

lemma phone_number_not_searched: "phoneNumber jane = 5551234567 \<and> \<not> matches ''555'' jane"
  by code_simp

section \<open>The claims\<close>

subsection \<open>C1: which records the filter keeps\<close>

text \<open>
  C1: the filter keeps a record if and only if its first name, last name, city, degree or
  one of its specialties contains the search string case-insensitively, or the decimal
  form of its years of experience contains it. The revised page does so
  (\<open>onChange_includes_iff\<close>). The original page does not: searching "jane" in the list
  of Jane and John, it compares "Jane" with "jane" as they are, reaches
  \<^verbatim>\<open>advocate.yearsOfExperience.includes\<close> and raises a \<^verbatim>\<open>TypeError\<close>, where the revised
  filter returns Jane.
\<close>

theorem page_filter_is_case_sensitive:
  "filterE (matches_orig ''jane'') [jane, john] = Inl TypeError \<and>
   filter (matches ''jane'') [jane, john] = [jane]"
  by code_simp

subsection \<open>C2: the case of the term\<close>

text \<open>
  C2: for an alphabetic term \<open>t\<close>, filtering with \<open>t\<close>, with \<open>t\<close> in capitals and with \<open>t\<close>
  in small letters gives the same list. The revised page does so
  (\<open>onChange_case_insensitive\<close>). On the original page the term "John" keeps John, and
  "JOHN" and "john" raise a \<^verbatim>\<open>TypeError\<close>.
\<close>

theorem page_filter_depends_on_case:
  "alphabetic ''John'' \<and>
   filterE (matches_orig ''John'') [john] = Inr [john] \<and>
   filterE (matches_orig (toUpperCase ''John'')) [john] = Inl TypeError \<and>
   filterE (matches_orig (toLowerCase ''John'')) [john] = Inl TypeError"
  by code_simp

subsection \<open>C3: records with a missing field\<close>

text \<open>
  C3 as stated: the predicate never raises, and a record with a missing field counts as
  not matching on that field. It fails on Jane without her first name and the term "doe":
  her last name contains the term, but the predicate raises a \<^verbatim>\<open>TypeError\<close> at
  \<^verbatim>\<open>advocate.firstName.toLowerCase()\<close> before it looks at the last name.
\<close>

theorem missing_field_counterexample:
  "filterE (matches_raw ''doe'') [jane_without_firstName] = Inl TypeError"
  by code_simp

text \<open>
  C3, amended: on every well-typed record (every compared field present) and every search
  term the revised predicate returns true or false and never raises, and so does the
  filter over a list of such records; a record without its first name raises a
  \<^verbatim>\<open>TypeError\<close> for every search term.
\<close>

theorem matches_raw_well_typed:
  "matches_raw v (raw_of a) = Inr (matches v a) \<and>
   filterE (matches_raw v) (map raw_of l) = Inr (map raw_of (filter (matches v) l)) \<and>
   matches_raw v (r\<lparr>raw_firstName := None\<rparr>) = Inl TypeError"
proof -
  have "filterE (matches_raw v) (map raw_of l) = Inr (map raw_of (filter (matches v) l))"
    by (induction l) (simp_all add: matches_raw_raw_of)
  then show ?thesis
    by (simp add: matches_raw_raw_of) (simp add: matches_raw_def call_on_def js_or_def Let_def)
qed

subsection \<open>C4: fifteen years of experience\<close>

text \<open>
  C4: a record with fifteen years of experience is kept for the terms "5" and "15". The
  revised page does so (\<open>onChange_years_15\<close>). On the original page both terms raise a
  \<^verbatim>\<open>TypeError\<close> on Jane, who has fifteen years: a number has no method \<^verbatim>\<open>includes\<close>.
\<close>

theorem page_years_raise:
  "yearsOfExperience jane = 15 \<and>
   filterE (matches_orig ''5'') [jane] = Inl TypeError \<and>
   filterE (matches_orig ''15'') [jane] = Inl TypeError \<and>
   filter (matches ''5'') [jane] = [jane] \<and>
   filter (matches ''15'') [jane] = [jane]"
  by code_simp

subsection \<open>C5: empty and blank terms\<close>

text \<open>
  C5 as stated: an empty term and a term of white space alone both return the full list.
  It fails for the term of one space: no field of Jane or John contains a space, and the
  revised filter returns the empty list.
\<close>

theorem whitespace_term_counterexample:
  "filteredAdvocates (onChange '' '' loaded) \<noteq> advocates loaded"
  by code_simp

text \<open>
  C5, amended: on both pages the empty term returns the full list unchanged, and filtering
  an empty list with any term returns the empty list without error.
\<close>

theorem empty_term_returns_all:
  "filteredAdvocates (onChange [] s) = advocates s \<and>
   (advocates s = [] \<longrightarrow> filteredAdvocates (onChange v s) = []) \<and>
   (\<exists>s'. onChange_orig [] s0 = Done s' \<and> filteredAdvocates s' = advocates s0) \<and>
   (advocates s0 = [] \<longrightarrow>
      (\<exists>s'. onChange_orig v s0 = Done s' \<and> filteredAdvocates s' = []))"
proof -
  have "filterE (matches_orig []) (advocates s0) = Inr (advocates s0)"
    by (rule filterE_all_True) (rule matches_orig_Nil)
  then show ?thesis
    by (simp add: onChange_filtered matches_Nil onChange_orig_def Let_def)
qed

theorem empty_term_returns_all_witness:
  "advocates home_init = [] \<and> filteredAdvocates (onChange ''x'' home_init) = [] \<and>
   advocates home_init_orig = [] \<and>
   (\<exists>s'. onChange_orig ''x'' home_init_orig = Done s' \<and> filteredAdvocates s' = [])"
  using empty_term_returns_all [of home_init "''x''" home_init_orig]
  by (simp add: home_init_def home_init_orig_def)

subsection \<open>C6: the output is a subsequence\<close>

text \<open>
  C6: the filtered list is a subsequence of the full list, in the original order. It holds
  for the revised \<^verbatim>\<open>onChange\<close>, and for the original one whenever its filter returns.
\<close>

theorem filter_subseq:
  "subseq (filteredAdvocates (onChange v s)) (advocates s) \<and>
   (\<forall>s'. onChange_orig v s0 = Done s' \<longrightarrow> subseq (filteredAdvocates s') (advocates s0))"
  by (auto simp: onChange_filtered onChange_orig_def Let_def split: sum.splits
      dest: filterE_subseq)

theorem filter_subseq_witness:
  "subseq (filteredAdvocates (onChange ''Bos'' loaded)) (advocates loaded) \<and>
   filteredAdvocates (onChange ''Bos'' loaded) = [john] \<and>
   onChange_orig ''Bos'' (loaded_orig\<lparr>advocates := [john]\<rparr>) =
     Done (loaded_orig\<lparr>advocates := [john], filteredAdvocates := [john],
                       search_term_innerHTML := ''Bos'',
                       console := console loaded_orig @ [Log ''filtering advocates...'']\<rparr>) \<and>
   subseq [john] (advocates (loaded_orig\<lparr>advocates := [john]\<rparr>))"
proof -
  have 1: "onChange_orig ''Bos'' (loaded_orig\<lparr>advocates := [john]\<rparr>) =
     Done (loaded_orig\<lparr>advocates := [john], filteredAdvocates := [john],
                       search_term_innerHTML := ''Bos'',
                       console := console loaded_orig @ [Log ''filtering advocates...'']\<rparr>)"
    by code_simp
  have 2: "filteredAdvocates (onChange ''Bos'' loaded) = [john]"
    by code_simp
  from filter_subseq [of "''Bos''" loaded "loaded_orig\<lparr>advocates := [john]\<rparr>"] 1 2
  show ?thesis
    by simp
qed

subsection \<open>C7: a failed request\<close>

text \<open>
  C7 as stated: after a network error or a malformed payload the failure is logged and both
  lists stay as they were. It fails for a payload that is JSON but has no array under
  \<^verbatim>\<open>data\<close>: nothing is raised inside \<^verbatim>\<open>try\<close>, the value is stored in both lists, and
  the render raises a \<^verbatim>\<open>TypeError\<close>.
\<close>

theorem wrong_shape_counterexample:
  "fetchAdvocates (JsonResolves (JsonValue NotAnArray)) home_init = RenderCrash TypeError"
  by code_simp

text \<open>
  C7, amended: when \<^verbatim>\<open>fetch\<close> rejects, or the body is not JSON, or the body is \<^verbatim>\<open>null\<close>,
  the revised \<^verbatim>\<open>fetchAdvocates\<close> logs "Failed to fetch advocates:" with the error and
  changes nothing else, so both lists stay as they were; the original effect leaves both
  lists as they were too.
\<close>

theorem fetch_failure_logged:
  "r \<in> {FetchRejects, JsonRejects, JsonResolves JsonNull} \<Longrightarrow>
   (\<exists>e. fetchAdvocates r s =
          Done (s\<lparr>console := console s @ [Log ''fetching advocates...'',
                                           LogError ''Failed to fetch advocates:'' e]\<rparr>)) \<and>
   (\<exists>e s'. useEffect_orig r s0 = Uncaught e s' \<and> advocates s' = advocates s0 \<and>
            filteredAdvocates s' = filteredAdvocates s0)"
  by (auto simp: fetchAdvocates_def useEffect_orig_def Let_def)

theorem fetch_failure_logged_witness:
  "FetchRejects \<in> {FetchRejects, JsonRejects, JsonResolves JsonNull} \<and>
   fetchAdvocates FetchRejects home_init =
     Done (home_init\<lparr>console := [Log ''fetching advocates...'',
                                  LogError ''Failed to fetch advocates:'' NetworkError]\<rparr>) \<and>
   (\<exists>e s'. useEffect_orig FetchRejects home_init_orig = Uncaught e s' \<and>
            advocates s' = advocates home_init_orig \<and>
            filteredAdvocates s' = filteredAdvocates home_init_orig)"
proof -
  have "fetchAdvocates FetchRejects home_init =
     Done (home_init\<lparr>console := [Log ''fetching advocates...'',
                                  LogError ''Failed to fetch advocates:'' NetworkError]\<rparr>)"
    by (simp add: fetchAdvocates_def home_init_def)
  with fetch_failure_logged [of FetchRejects home_init home_init_orig] show ?thesis
    by simp
qed

subsection \<open>C8: reset\<close>

text \<open>
  C8: after any filtering, reset shows the fetched list again and clears the displayed
  search term. The revised page does so (\<open>reset_after_filtering\<close>). The original
  \<^verbatim>\<open>onClick\<close> restores the list but not the span: after the term "J" and a reset the span
  still reads "J".
\<close>

theorem page_reset_keeps_search_term:
  "onChange_orig ''J'' loaded_orig =
     Done (loaded_orig\<lparr>search_term_innerHTML := ''J'',
                       console := console loaded_orig @ [Log ''filtering advocates...'']\<rparr>) \<and>
   search_term_innerHTML
     (onClick_orig (loaded_orig\<lparr>search_term_innerHTML := ''J'',
                       console := console loaded_orig @ [Log ''filtering advocates...'']\<rparr>)) = ''J''"
  by code_simp

subsection \<open>C9: the display list stays within the full list\<close>

text \<open>
  C9: a successful fetch, a change of the search input and a reset each preserve that every
  record of the display list is a record of the full list, on both pages; on the original
  page also when \<^verbatim>\<open>onChange\<close> raises.
\<close>

theorem display_within_full_preserved:
  "display_within_full s \<Longrightarrow> display_within_full s0 \<Longrightarrow>
   (\<forall>s'. fetchAdvocates (JsonResolves (JsonValue (Records d))) s = Done s' \<longrightarrow>
          display_within_full s') \<and>
   display_within_full (onChange v s) \<and>
   display_within_full (onClick s) \<and>
   (\<forall>s'. useEffect_orig (JsonResolves (JsonValue (Records d))) s0 = Done s' \<longrightarrow>
          display_within_full s') \<and>
   (\<forall>s'. onChange_orig v s0 = Done s' \<longrightarrow> display_within_full s') \<and>
   (\<forall>e s'. onChange_orig v s0 = Uncaught e s' \<longrightarrow> display_within_full s') \<and>
   display_within_full (onClick_orig s0)"
  by (auto simp: display_within_full_def fetchAdvocates_def useEffect_orig_def onChange_def
      onClick_def onChange_orig_def onClick_orig_def Let_def
      split: sum.splits dest!: filterE_set)

theorem display_within_full_preserved_witness:
  "display_within_full loaded \<and> display_within_full loaded_orig \<and>
   fetchAdvocates (JsonResolves (JsonValue (Records [john]))) loaded =
     Done (loaded\<lparr>advocates := [john], filteredAdvocates := [john],
                  console := console loaded @ [Log ''fetching advocates...'']\<rparr>) \<and>
   display_within_full (loaded\<lparr>advocates := [john], filteredAdvocates := [john],
                  console := console loaded @ [Log ''fetching advocates...'']\<rparr>) \<and>
   display_within_full (onChange ''bos'' loaded) \<and>
   display_within_full (onClick loaded) \<and>
   onChange_orig ''bos'' loaded_orig =
     Uncaught TypeError
       (loaded_orig\<lparr>search_term_innerHTML := ''bos'',
                    console := console loaded_orig @ [Log ''filtering advocates...'']\<rparr>) \<and>
   display_within_full
       (loaded_orig\<lparr>search_term_innerHTML := ''bos'',
                    console := console loaded_orig @ [Log ''filtering advocates...'']\<rparr>) \<and>
   display_within_full (onClick_orig loaded_orig)"
proof -
  have 1: "display_within_full loaded" and 2: "display_within_full loaded_orig"
    by (simp_all add: display_within_full_def loaded_def loaded_orig_def)
  have 3: "fetchAdvocates (JsonResolves (JsonValue (Records [john]))) loaded =
     Done (loaded\<lparr>advocates := [john], filteredAdvocates := [john],
                  console := console loaded @ [Log ''fetching advocates...'']\<rparr>)"
    by (simp add: fetchAdvocates_def)
  have 4: "onChange_orig ''bos'' loaded_orig =
     Uncaught TypeError
       (loaded_orig\<lparr>search_term_innerHTML := ''bos'',
                    console := console loaded_orig @ [Log ''filtering advocates...'']\<rparr>)"
    by code_simp
  from display_within_full_preserved [OF 1 2, of "[john]" "''bos''"] 1 2 3 4
  show ?thesis by simp
qed

subsection \<open>C10: fields the filter does not read\<close>

text \<open>
  C10: two records that agree on first name, last name, city, degree, specialties and
  years of experience, and so differ in \<^verbatim>\<open>id\<close>, \<^verbatim>\<open>phoneNumber\<close> and \<^verbatim>\<open>createdAt\<close> at
  most, get the same verdict from the predicate for every term, on both pages.
\<close>

theorem match_ignores_other_fields:
  "firstName a = firstName b \<Longrightarrow> lastName a = lastName b \<Longrightarrow> city a = city b \<Longrightarrow>
   degree a = degree b \<Longrightarrow> specialties a = specialties b \<Longrightarrow>
   yearsOfExperience a = yearsOfExperience b \<Longrightarrow>
   matches v a = matches v b \<and> matches_orig v a = matches_orig v b"
  by (simp add: matches_def matches_orig_def)

theorem match_ignores_other_fields_witness:
  "firstName jane = firstName (jane\<lparr>id_opt := Some 7, phoneNumber := 15, createdAt := Some 0\<rparr>) \<and>
   lastName jane = lastName (jane\<lparr>id_opt := Some 7, phoneNumber := 15, createdAt := Some 0\<rparr>) \<and>
   city jane = city (jane\<lparr>id_opt := Some 7, phoneNumber := 15, createdAt := Some 0\<rparr>) \<and>
   degree jane = degree (jane\<lparr>id_opt := Some 7, phoneNumber := 15, createdAt := Some 0\<rparr>) \<and>
   specialties jane =
     specialties (jane\<lparr>id_opt := Some 7, phoneNumber := 15, createdAt := Some 0\<rparr>) \<and>
   yearsOfExperience jane =
     yearsOfExperience (jane\<lparr>id_opt := Some 7, phoneNumber := 15, createdAt := Some 0\<rparr>) \<and>
   matches ''555'' jane =
     matches ''555'' (jane\<lparr>id_opt := Some 7, phoneNumber := 15, createdAt := Some 0\<rparr>) \<and>
   matches_orig ''555'' jane =
     matches_orig ''555'' (jane\<lparr>id_opt := Some 7, phoneNumber := 15, createdAt := Some 0\<rparr>)"
  using match_ignores_other_fields
    [of jane "jane\<lparr>id_opt := Some 7, phoneNumber := 15, createdAt := Some 0\<rparr>" "''555''"]
  by simp

end
